theory Spec2Isabelle
  imports Main
begin

section \<open>The credentials router of the traceability controller\<close>

text \<open>
  The development embeds \<^verbatim>\<open>app/routers/credentials.py\<close>: the five request handlers
  \<^verbatim>\<open>get_credential\<close>, \<^verbatim>\<open>issue_credential\<close>, \<^verbatim>\<open>verify_credential\<close>,
  \<^verbatim>\<open>update_credential_status\<close> and \<^verbatim>\<open>get_status_list_credential\<close>, together with
  the route declarations that precede them.

  The handlers work on JSON-shaped Python values, raise exceptions, and call collaborators
  (\<^verbatim>\<open>askar\<close>, \<^verbatim>\<open>status_list\<close>, \<^verbatim>\<open>agent\<close>, \<^verbatim>\<open>is_authorized\<close>, \<^verbatim>\<open>format_label\<close>)
  whose code is in other modules. Values are a datatype, an exception is the left
  summand of a result, the persistent state is passed explicitly and returned also when an
  exception is raised, and the collaborators are the fields of an environment record, so
  that a statement about a handler holds for every implementation of them.
\<close>

subsection \<open>Python values\<close>

datatype json =
    JNull
  | JBool bool
  | JInt int
  | JStr string
  | JList "json list"
  | JDict "(string \<times> json) list"

type_synonym dict = "(string \<times> json) list"

text \<open>
  A dictionary is an association list with distinct keys; the first binding of a key is
  the one that counts. The exceptions are those the handlers construct themselves
  (\<^verbatim>\<open>ValidationException\<close>), those of the Python operations they use, and \<open>Raised\<close>
  for whatever a collaborator raises.
\<close>

datatype exn =
    KeyError string
  | TypeError
  | AttributeError
  | ValidationException nat dict
  | Raised string

text \<open>\<^verbatim>\<open>d[k]\<close> on a dictionary.\<close>

definition getitem :: "dict \<Rightarrow> string \<Rightarrow> exn + json" where
  "getitem d k = (case map_of d k of None \<Rightarrow> Inl (KeyError k) | Some v \<Rightarrow> Inr v)"

text \<open>\<^verbatim>\<open>d[k] = v\<close>: an existing key keeps its place, a new one goes last.\<close>

fun setitem :: "dict \<Rightarrow> string \<Rightarrow> json \<Rightarrow> dict" where
  "setitem [] k v = [(k, v)]"
| "setitem ((k', v') # d) k v = (if k' = k then (k, v) # d else (k', v') # setitem d k v)"

text \<open>\<^verbatim>\<open>del d[k]\<close>, for a key that is present.\<close>

fun delitem :: "dict \<Rightarrow> string \<Rightarrow> dict" where
  "delitem [] k = []"
| "delitem ((k', v') # d) k = (if k' = k then d else (k', v') # delitem d k)"

text \<open>\<^verbatim>\<open>d.pop(k)\<close> with no default: KeyError when the key is absent.\<close>

definition pop :: "dict \<Rightarrow> string \<Rightarrow> exn + (json \<times> dict)" where
  "pop d k = (case map_of d k of None \<Rightarrow> Inl (KeyError k) | Some v \<Rightarrow> Inr (v, delitem d k))"

text \<open>\<^verbatim>\<open>k in d\<close> on a dictionary.\<close>

definition contains :: "string \<Rightarrow> dict \<Rightarrow> bool" where
  "contains k d = (map_of d k \<noteq> None)"

text \<open>
  \<^verbatim>\<open>x[k]\<close> with a string key on any value: a dictionary looks the key up; a list or a
  string wants an integer index and every other value is not subscriptable, both a
  TypeError.
\<close>

fun subscript :: "json \<Rightarrow> string \<Rightarrow> exn + json" where
  "subscript (JDict d) k = getitem d k"
| "subscript _ k = Inl TypeError"

text \<open>Truth value of a Python value, as \<^verbatim>\<open>if x\<close> and \<^verbatim>\<open>not x\<close> take it.\<close>

fun truthy :: "json \<Rightarrow> bool" where
  "truthy JNull = False"
| "truthy (JBool b) = b"
| "truthy (JInt n) = (n \<noteq> 0)"
| "truthy (JStr s) = (s \<noteq> [])"
| "truthy (JList xs) = (xs \<noteq> [])"
| "truthy (JDict d) = (d \<noteq> [])"

text \<open>
  A Python string is represented by the bytes of its UTF-8 encoding. Concatenation and
  equality of strings are concatenation and equality of these byte lists.
  \<^verbatim>\<open>str.lower()\<close> is not a bytewise operation: it follows the Unicode case mapping,
  which can change the length of a string and, for the Greek capital sigma, looks at the
  neighbouring characters. It is therefore kept among the collaborators below
  (\<open>str_lower\<close>), and nothing is assumed of it.
\<close>

subsection \<open>Responses and collaborators\<close>

text \<open>
  What a handler hands back to the framework: a value it returns as it is, a
  \<^verbatim>\<open>JSONResponse\<close> with its status code and content, or (in
  \<^verbatim>\<open>get_status_list_credential\<close>) an exception object that is returned, not raised.
\<close>

datatype response =
    Returned json
  | JSONResponse nat json
  | ReturnedException exn

text \<open>
  The local \<^verbatim>\<open>verification\<close> dictionary of \<^verbatim>\<open>verify_credential\<close>, by the keys the
  handler touches.
\<close>

record verification =
  verified :: json
  checks :: "string list"
  warnings :: "string list"
  errors :: "string list"
  verifications :: "json list"

text \<open>
  The collaborators. \<open>'st\<close> is the persistent state behind \<^verbatim>\<open>askar\<close> and
  \<^verbatim>\<open>status_list\<close>, \<open>'r\<close> the framework's request object. A call that may change the
  state returns the new state beside its result. \<open>fetch_data\<close> reads only.
  \<open>py_str\<close> is \<^verbatim>\<open>str()\<close> on a value that is not a string, \<open>str_lower\<close> is
  \<^verbatim>\<open>str.lower()\<close>, \<open>uuid4\<close> the identifier drawn
  for this request, \<open>is_expired\<close> lines 135 to 138 (parsing the date and comparing it with
  the clock), \<open>CredentialVerificationResponse\<close> the \<^verbatim>\<open>dict()\<close> of a fresh response
  model, \<open>JWTBearer\<close> the route dependency.
\<close>

record ('st, 'r) env =
  DID_WEB_BASE :: string
  JWTBearer :: "'r \<Rightarrow> exn + unit"
  is_authorized :: "string \<Rightarrow> 'r \<Rightarrow> exn + string"
  format_label :: "string \<Rightarrow> exn + string"
  fetch_data :: "'st \<Rightarrow> string \<Rightarrow> exn + json"
  store_data :: "'st \<Rightarrow> string \<Rightarrow> json \<Rightarrow> (exn + unit) \<times> 'st"
  update_data :: "'st \<Rightarrow> string \<Rightarrow> json \<Rightarrow> (exn + unit) \<times> 'st"
  create_entry :: "'st \<Rightarrow> string \<Rightarrow> string \<Rightarrow> (exn + json) \<times> 'st"
  get_credential_status :: "'st \<Rightarrow> json \<Rightarrow> json \<Rightarrow> exn + bool"
  change_credential_status :: "'st \<Rightarrow> json \<Rightarrow> json \<Rightarrow> string \<Rightarrow> (exn + json) \<times> 'st"
  get_verkey :: "json \<Rightarrow> exn + json"
  sign_json_ld :: "json \<Rightarrow> json \<Rightarrow> json \<Rightarrow> exn + json"
  agent_verify_credential :: "json \<Rightarrow> exn + json"
  uuid4 :: string
  py_str :: "json \<Rightarrow> string"
  str_lower :: "string \<Rightarrow> string"
  is_expired :: "json \<Rightarrow> exn + bool"
  CredentialVerificationResponse :: verification

text \<open>A value inside an f-string.\<close>

definition fmt :: "('st, 'r) env \<Rightarrow> json \<Rightarrow> string" where
  "fmt env v = (case v of JStr s \<Rightarrow> s | _ \<Rightarrow> py_str env v)"

subsection \<open>The keys of the store\<close>

text \<open>Line 30: the key \<^verbatim>\<open>get_credential\<close> fetches.\<close>

definition credential_key :: "string \<Rightarrow> string \<Rightarrow> string" where
  "credential_key label credential_id = label @ '':credentials:'' @ credential_id"

text \<open>Lines 99 and 171: the same f-string, lowercased as a whole.\<close>

definition stored_credential_key :: "('st, 'r) env \<Rightarrow> string \<Rightarrow> string \<Rightarrow> string" where
  "stored_credential_key env label credential_id =
     str_lower env (label @ '':credentials:'' @ credential_id)"

text \<open>Line 186: the key \<^verbatim>\<open>update_credential_status\<close> writes.\<close>

definition status_list_key :: "string \<Rightarrow> string" where
  "status_list_key label = label @ '':status_list''"

text \<open>Line 200: the key \<^verbatim>\<open>get_status_list_credential\<close> fetches.\<close>

definition status_lists_key :: "string \<Rightarrow> string \<Rightarrow> string" where
  "status_lists_key label list_type = label @ '':status_lists:'' @ list_type"

subsection \<open>The two lookups\<close>

text \<open>
  \<^verbatim>\<open>get_credential\<close>, lines 27 to 37. The authorisation stands before the
  \<^verbatim>\<open>try\<close>; the bare \<^verbatim>\<open>except\<close> turns whatever the fetch raises into the 404.
\<close>

definition get_credential ::
  "('st, 'r) env \<Rightarrow> 'st \<Rightarrow> string \<Rightarrow> string \<Rightarrow> 'r \<Rightarrow> (exn + response) \<times> 'st" where
  "get_credential env st label credential_id request =
     (case is_authorized env label request of
        Inl e \<Rightarrow> (Inl e, st)
      | Inr label \<Rightarrow>
          (case fetch_data env st (credential_key label credential_id) of
             Inl _ \<Rightarrow>
               (Inl (ValidationException 404
                  [(''message'', JStr (''credential '' @ credential_id @ '' not found''))]), st)
           | Inr credential \<Rightarrow> (Inr (Returned credential), st)))"

text \<open>
  \<^verbatim>\<open>get_status_list_credential\<close>, lines 197 to 207. It takes no request; the label is
  normalised by \<^verbatim>\<open>format_label\<close>; the exception object is returned.
\<close>

definition get_status_list_credential ::
  "('st, 'r) env \<Rightarrow> 'st \<Rightarrow> string \<Rightarrow> string \<Rightarrow> (exn + response) \<times> 'st" where
  "get_status_list_credential env st label list_type =
     (case format_label env label of
        Inl e \<Rightarrow> (Inl e, st)
      | Inr label \<Rightarrow>
          (case fetch_data env st (status_lists_key label list_type) of
             Inl _ \<Rightarrow>
               (Inr (ReturnedException (ValidationException 404
                  [(''message'', JStr ''Status list not found'')])), st)
           | Inr status_list_vc \<Rightarrow> (Inr (Returned status_list_vc), st)))"

subsection \<open>Issuing a credential\<close>

text \<open>\<^verbatim>\<open>credential["@context"].append(url)\<close>: only a list has \<^verbatim>\<open>append\<close>.\<close>

definition append_context :: "dict \<Rightarrow> string \<Rightarrow> exn + dict" where
  "append_context credential url =
     (case getitem credential ''@context'' of
        Inl e \<Rightarrow> Inl e
      | Inr (JList xs) \<Rightarrow> Inr (setitem credential ''@context'' (JList (xs @ [JStr url])))
      | Inr _ \<Rightarrow> Inl AttributeError)"

text \<open>
  The body shared by the two branches of lines 61 to 70: the context is appended, then
  \<^verbatim>\<open>create_entry\<close> is awaited and its result assigned to the status claim.
\<close>

definition bind_status ::
  "('st, 'r) env \<Rightarrow> 'st \<Rightarrow> string \<Rightarrow> dict \<Rightarrow> string \<Rightarrow> string \<Rightarrow> (exn + dict) \<times> 'st" where
  "bind_status env st label credential context_url list_type =
     (case append_context credential context_url of
        Inl e \<Rightarrow> (Inl e, st)
      | Inr credential \<Rightarrow>
          (case create_entry env st label list_type of
             (Inl e, st) \<Rightarrow> (Inl e, st)
           | (Inr entry, st) \<Rightarrow> (Inr (setitem credential ''credentialStatus'' entry), st)))"

text \<open>Lines 60 to 70, \<^verbatim>\<open># Fill status information\<close>.\<close>

definition fill_status ::
  "('st, 'r) env \<Rightarrow> 'st \<Rightarrow> string \<Rightarrow> dict \<Rightarrow> dict \<Rightarrow> (exn + dict) \<times> 'st" where
  "fill_status env st label credential options =
     (if contains ''credentialStatus'' options then
        (case getitem options ''credentialStatus'' of
           Inl e \<Rightarrow> (Inl e, st)
         | Inr credentialStatus \<Rightarrow>
             (case subscript credentialStatus ''type'' of
                Inl e \<Rightarrow> (Inl e, st)
              | Inr ty \<Rightarrow>
                  if ty = JStr ''StatusList2021Entry'' then
                    bind_status env st label credential
                      ''https://w3id.org/vc/status-list/2021/v1'' ''StatusList2021''
                  else if ty = JStr ''RevocationList2020Status'' then
                    bind_status env st label credential
                      ''https://w3id.org/vc-revocation-list-2020/v1'' ''RevocationList2020''
                  else (Inr credential, st)))
      else (Inr credential, st))"

text \<open>
  Lines 73 to 77 and line 174: the issuer itself when it is a string, its \<^verbatim>\<open>id\<close>
  otherwise.
\<close>

definition issuer_of :: "json \<Rightarrow> exn + json" where
  "issuer_of vc =
     (case subscript vc ''issuer'' of
        Inl e \<Rightarrow> Inl e
      | Inr (JStr s) \<Rightarrow> Inr (JStr s)
      | Inr issuer \<Rightarrow> subscript issuer ''id'')"

text \<open>
  Lines 73 to 102: the issuer check, the proof options, the signature, the store. The two
  \<^verbatim>\<open>print\<close> calls have no effect on the result or the state and are left out.
\<close>

definition sign_and_store ::
  "('st, 'r) env \<Rightarrow> 'st \<Rightarrow> string \<Rightarrow> dict \<Rightarrow> dict \<Rightarrow> (exn + response) \<times> 'st" where
  "sign_and_store env st label credential options =
     (case issuer_of (JDict credential) of
        Inl e \<Rightarrow> (Inl e, st)
      | Inr issuer_did \<Rightarrow>
          let did = DID_WEB_BASE env @ '':organization:'' @ label in
          if JStr did \<noteq> issuer_did then
            (Inl (ValidationException 400 [(''message'', JStr ''Invalid issuer'')]), st)
          else
            let options = setitem options ''verificationMethod'' (JStr (did @ ''#verkey''));
                options = (if contains ''created'' options then delitem options ''created''
                           else options);
                options = setitem options ''proofPurpose'' (JStr ''assertionMethod'')
            in
              (case get_verkey env (JStr did) of
                 Inl e \<Rightarrow> (Inl e, st)
               | Inr verkey \<Rightarrow>
                   (case sign_json_ld env (JDict credential) (JDict options) verkey of
                      Inl e \<Rightarrow> (Inl e, st)
                    | Inr vc \<Rightarrow>
                        (case getitem credential ''id'' of
                           Inl e \<Rightarrow> (Inl e, st)
                         | Inr cid \<Rightarrow>
                             (case store_data env st
                                     (stored_credential_key env label (fmt env cid))
                                     (JDict credential) of
                                (Inl e, st) \<Rightarrow> (Inl e, st)
                              | (Inr _, st) \<Rightarrow>
                                  (Inr (JSONResponse 201
                                     (JDict [(''verifiableCredential'', vc)])), st))))))"

text \<open>
  \<^verbatim>\<open>issue_credential\<close>, lines 46 to 102. The request body is given by its two entries
  \<^verbatim>\<open>request_body["credential"]\<close> and \<^verbatim>\<open>request_body["options"]\<close>, both dictionaries
  with the absent values already dropped (\<^verbatim>\<open>exclude_none\<close>).
\<close>

definition issue_credential ::
  "('st, 'r) env \<Rightarrow> 'st \<Rightarrow> string \<Rightarrow> 'r \<Rightarrow> dict \<Rightarrow> dict \<Rightarrow> (exn + response) \<times> 'st" where
  "issue_credential env st label request credential options =
     (case is_authorized env label request of
        Inl e \<Rightarrow> (Inl e, st)
      | Inr label \<Rightarrow>
          (case pop credential ''context'' of
             Inl e \<Rightarrow> (Inl e, st)
           | Inr (context, credential) \<Rightarrow>
               let credential = setitem credential ''@context'' context;
                   credential =
                     (if \<not> contains ''id'' credential
                      then setitem credential ''id'' (JStr (''urn:uuid:'' @ uuid4 env))
                      else credential)
               in
                 (case fill_status env st label credential options of
                    (Inl e, st) \<Rightarrow> (Inl e, st)
                  | (Inr credential, st) \<Rightarrow>
                      (case pop options ''credentialStatus'' of
                         Inl e \<Rightarrow> (Inl e, st)
                       | Inr (_, options) \<Rightarrow>
                           sign_and_store env st label credential options))))"

subsection \<open>Verifying a credential\<close>

text \<open>
  Lines 123 to 130. \<^verbatim>\<open>get_credential_status\<close> is called without \<^verbatim>\<open>await\<close>; the
  collaborator's result stands for the truth value of what the call hands back.
\<close>

definition check_status ::
  "('st, 'r) env \<Rightarrow> 'st \<Rightarrow> dict \<Rightarrow> verification \<Rightarrow> exn + verification" where
  "check_status env st vc verification =
     (if contains ''credentialStatus'' vc then
        (case getitem vc ''credentialStatus'' of
           Inl e \<Rightarrow> Inl e
         | Inr credentialStatus \<Rightarrow>
             (case subscript credentialStatus ''type'' of
                Inl e \<Rightarrow> Inl e
              | Inr status_type \<Rightarrow>
                  let verification = verification\<lparr>checks := checks verification @ [''status'']\<rparr>
                  in
                    (case get_credential_status env st (JDict vc) status_type of
                       Inl e \<Rightarrow> Inl e
                     | Inr status \<Rightarrow>
                         if status then
                           Inr (verification
                                 \<lparr>errors := errors verification @ [''revoked''],
                                  verifications :=
                                    [JDict [(''title'', JStr ''Revocation''),
                                            (''status'', JStr ''bad'')]]\<rparr>)
                         else Inr verification)))
      else Inr verification)"

text \<open>Lines 133 to 139.\<close>

definition check_expiry ::
  "('st, 'r) env \<Rightarrow> dict \<Rightarrow> verification \<Rightarrow> exn + verification" where
  "check_expiry env vc verification =
     (if contains ''expirationDate'' vc then
        let verification = verification\<lparr>checks := checks verification @ [''expiry'']\<rparr> in
          (case getitem vc ''expirationDate'' of
             Inl e \<Rightarrow> Inl e
           | Inr expirationDate \<Rightarrow>
               (case is_expired env expirationDate of
                  Inl e \<Rightarrow> Inl e
                | Inr expired \<Rightarrow>
                    if expired
                    then Inr (verification\<lparr>errors := errors verification @ [''expired'']\<rparr>)
                    else Inr verification))
      else Inr verification)"

text \<open>
  Lines 142 to 154: the local dictionary as it stands at the \<^verbatim>\<open>return\<close>, and the
  response. Both \<^verbatim>\<open>return\<close> statements pass \<^verbatim>\<open>content=verified\<close>, the agent's answer.
\<close>

definition conclude :: "verification \<Rightarrow> json \<Rightarrow> verification \<times> response" where
  "conclude verification verified_doc =
     (let verification = verification\<lparr>checks := checks verification @ [''proof'']\<rparr> in
        case subscript verified_doc ''verified'' of
          Inr flag \<Rightarrow>
            let verification =
                  (if \<not> truthy flag
                   then verification\<lparr>errors := errors verification @ [''invalid proof'']\<rparr>
                   else verification);
                verification =
                  (if length (errors verification) = 0 \<and> length (warnings verification) = 0
                   then verification\<lparr>verified := JBool True\<rparr>
                   else verification\<lparr>verified := JBool False\<rparr>)
            in (verification, JSONResponse 200 verified_doc)
        | Inl _ \<Rightarrow>
            (verification\<lparr>verified := JBool False,
                          errors := errors verification @ [''verifier error'']\<rparr>,
             JSONResponse 200 verified_doc))"

text \<open>
  Lines 114 to 154 with the local \<^verbatim>\<open>verification\<close> kept beside the response, so that
  statements can speak about what the handler computed and about what it returned.
\<close>

definition verify_credential_locals ::
  "('st, 'r) env \<Rightarrow> 'st \<Rightarrow> string \<Rightarrow> 'r \<Rightarrow> dict \<Rightarrow> exn + (verification \<times> response)" where
  "verify_credential_locals env st label request vc =
     (case is_authorized env label request of
        Inl e \<Rightarrow> Inl e
      | Inr label \<Rightarrow>
          (case pop vc ''context'' of
             Inl e \<Rightarrow> Inl e
           | Inr (context, vc) \<Rightarrow>
               let vc = setitem vc ''@context'' context in
                 (case check_status env st vc (CredentialVerificationResponse env) of
                    Inl e \<Rightarrow> Inl e
                  | Inr verification \<Rightarrow>
                      (case check_expiry env vc verification of
                         Inl e \<Rightarrow> Inl e
                       | Inr verification \<Rightarrow>
                           (case agent_verify_credential env (JDict vc) of
                              Inl e \<Rightarrow> Inl e
                            | Inr verified_doc \<Rightarrow> Inr (conclude verification verified_doc))))))"

text \<open>
  \<^verbatim>\<open>verify_credential\<close>, lines 111 to 154; \<open>vc\<close> is
  \<^verbatim>\<open>request_body["verifiableCredential"]\<close>.
\<close>

definition verify_credential ::
  "('st, 'r) env \<Rightarrow> 'st \<Rightarrow> string \<Rightarrow> 'r \<Rightarrow> dict \<Rightarrow> (exn + response) \<times> 'st" where
  "verify_credential env st label request vc =
     (case verify_credential_locals env st label request vc of
        Inl e \<Rightarrow> (Inl e, st)
      | Inr (verification, response) \<Rightarrow> (Inr response, st))"

subsection \<open>Updating a credential's status\<close>

text \<open>
  The loop of lines 180 to 187. Each round changes the status, signs the status-list
  credential that comes back and writes it; an exception leaves the loop with the state
  as the rounds before it left it.
\<close>

fun status_loop ::
  "('st, 'r) env \<Rightarrow> string \<Rightarrow> json \<Rightarrow> json \<Rightarrow> json \<Rightarrow> dict list \<Rightarrow> 'st \<Rightarrow> (exn + unit) \<times> 'st" where
  "status_loop env label vc options verkey [] st = (Inr (), st)"
| "status_loop env label vc options verkey (status # statuses) st =
     (case getitem status ''status'' of
        Inl e \<Rightarrow> (Inl e, st)
      | Inr status_bit \<Rightarrow>
          (case change_credential_status env st vc status_bit label of
             (Inl e, st) \<Rightarrow> (Inl e, st)
           | (Inr status_list_credential, st) \<Rightarrow>
               (case sign_json_ld env status_list_credential options verkey of
                  Inl e \<Rightarrow> (Inl e, st)
                | Inr status_list_vc \<Rightarrow>
                    (case update_data env st (status_list_key label) status_list_vc of
                       (Inl e, st) \<Rightarrow> (Inl e, st)
                     | (Inr _, st) \<Rightarrow> status_loop env label vc options verkey statuses st))))"

text \<open>
  \<^verbatim>\<open>update_credential_status\<close>, lines 163 to 189; \<open>credential_id\<close> and \<open>statuses\<close> are
  \<^verbatim>\<open>request_body["credentialId"]\<close> and \<^verbatim>\<open>request_body["credentialStatus"]\<close>.
\<close>

definition update_credential_status ::
  "('st, 'r) env \<Rightarrow> 'st \<Rightarrow> string \<Rightarrow> 'r \<Rightarrow> string \<Rightarrow> dict list \<Rightarrow> (exn + response) \<times> 'st" where
  "update_credential_status env st label request credential_id statuses =
     (case is_authorized env label request of
        Inl e \<Rightarrow> (Inl e, st)
      | Inr label \<Rightarrow>
          (case fetch_data env st (stored_credential_key env label credential_id) of
             Inl e \<Rightarrow> (Inl e, st)
           | Inr vc \<Rightarrow>
               (case issuer_of vc of
                  Inl e \<Rightarrow> (Inl e, st)
                | Inr did \<Rightarrow>
                    (case get_verkey env did of
                       Inl e \<Rightarrow> (Inl e, st)
                     | Inr verkey \<Rightarrow>
                         let options =
                               JDict [(''verificationMethod'', JStr (fmt env did @ ''#verkey'')),
                                      (''proofPurpose'', JStr ''AssertionMethod'')]
                         in
                           (case status_loop env label vc options verkey statuses st of
                              (Inl e, st) \<Rightarrow> (Inl e, st)
                            | (Inr _, st) \<Rightarrow>
                                (Inr (JSONResponse 200
                                   (JDict [(''message'', JStr ''Status updated'')])), st))))))"

subsection \<open>The routes\<close>

text \<open>
  The five decorators, lines 21 to 26, 40 to 45, 105 to 110, 157 to 162 and 192 to 196:
  method, path, and the \<^verbatim>\<open>dependencies\<close> argument where there is one.
\<close>

datatype http_method = GET | POST

datatype dependency = Depends_JWTBearer

datatype endpoint =
    Get_credential
  | Issue_credential
  | Verify_credential
  | Update_credential_status
  | Get_status_list_credential

record route =
  route_method :: http_method
  route_path :: string
  route_dependencies :: "dependency list"
  route_endpoint :: endpoint

definition router :: "route list" where
  "router =
     [\<lparr>route_method = GET,
       route_path = ''/organization/{label}/credentials/{credential_id}'',
       route_dependencies = [Depends_JWTBearer],
       route_endpoint = Get_credential\<rparr>,
      \<lparr>route_method = POST,
       route_path = ''/organization/{label}/credentials/issue'',
       route_dependencies = [Depends_JWTBearer],
       route_endpoint = Issue_credential\<rparr>,
      \<lparr>route_method = POST,
       route_path = ''/organization/{label}/credentials/verify'',
       route_dependencies = [Depends_JWTBearer],
       route_endpoint = Verify_credential\<rparr>,
      \<lparr>route_method = POST,
       route_path = ''/organization/{label}/credentials/status'',
       route_dependencies = [Depends_JWTBearer],
       route_endpoint = Update_credential_status\<rparr>,
      \<lparr>route_method = GET,
       route_path = ''/organization/{label}/credentials/status/{list_type}'',
       route_dependencies = [],
       route_endpoint = Get_status_list_credential\<rparr>]"

text \<open>A request that has been matched to a route, with the arguments of its handler.\<close>

datatype call =
    Call_get_credential string string
  | Call_issue_credential string dict dict
  | Call_verify_credential string dict
  | Call_update_credential_status string string "dict list"
  | Call_get_status_list_credential string string

fun endpoint_of :: "call \<Rightarrow> endpoint" where
  "endpoint_of (Call_get_credential label credential_id) = Get_credential"
| "endpoint_of (Call_issue_credential label credential options) = Issue_credential"
| "endpoint_of (Call_verify_credential label vc) = Verify_credential"
| "endpoint_of (Call_update_credential_status label credential_id statuses) =
     Update_credential_status"
| "endpoint_of (Call_get_status_list_credential label list_type) = Get_status_list_credential"

fun handle :: "('st, 'r) env \<Rightarrow> 'st \<Rightarrow> 'r \<Rightarrow> call \<Rightarrow> (exn + response) \<times> 'st" where
  "handle env st request (Call_get_credential label credential_id) =
     get_credential env st label credential_id request"
| "handle env st request (Call_issue_credential label credential options) =
     issue_credential env st label request credential options"
| "handle env st request (Call_verify_credential label vc) =
     verify_credential env st label request vc"
| "handle env st request (Call_update_credential_status label credential_id statuses) =
     update_credential_status env st label request credential_id statuses"
| "handle env st request (Call_get_status_list_credential label list_type) =
     get_status_list_credential env st label list_type"

text \<open>
  The framework runs a route's dependencies on the request before the handler; one that
  raises ends the request.
\<close>

fun run_dependencies :: "('st, 'r) env \<Rightarrow> 'r \<Rightarrow> dependency list \<Rightarrow> exn + unit" where
  "run_dependencies env request [] = Inr ()"
| "run_dependencies env request (Depends_JWTBearer # ds) =
     (case JWTBearer env request of
        Inl e \<Rightarrow> Inl e
      | Inr _ \<Rightarrow> run_dependencies env request ds)"

definition serve :: "('st, 'r) env \<Rightarrow> 'st \<Rightarrow> 'r \<Rightarrow> call \<Rightarrow> (exn + response) \<times> 'st" where
  "serve env st request c =
     (case find (\<lambda>r. route_endpoint r = endpoint_of c) router of
        None \<Rightarrow> (Inl (Raised ''no route''), st)
      | Some r \<Rightarrow>
          (case run_dependencies env request (route_dependencies r) of
             Inl e \<Rightarrow> (Inl e, st)
           | Inr _ \<Rightarrow> handle env st request c))"

subsection \<open>A reference implementation of the collaborators\<close>

text \<open>
  The statements below hold for every environment. To run a handler on a concrete request
  the collaborators need an implementation; this one is small and follows the
  specification's description of them.
\<close>

record world =
  records :: dict
  status_bits :: "bool list"
  next_free_index :: nat

text \<open>
  Modelled from the spec: the Store of section 6, \<^verbatim>\<open>get(key) -> bytes | NotFound\<close> and
  \<^verbatim>\<open>put(key, bytes) -> void\<close>; \<^verbatim>\<open>app/controllers/askar.py\<close> is not among the sources.
\<close>

definition askar_fetch_data :: "world \<Rightarrow> string \<Rightarrow> exn + json" where
  "askar_fetch_data w data_key =
     (case map_of (records w) data_key of
        None \<Rightarrow> Inl (Raised ''NotFound'')
      | Some v \<Rightarrow> Inr v)"

definition askar_put :: "world \<Rightarrow> string \<Rightarrow> json \<Rightarrow> (exn + unit) \<times> world" where
  "askar_put w data_key v = (Inr (), w\<lparr>records := setitem (records w) data_key v\<rparr>)"

text \<open>
  Modelled from the spec: the status engine of section 4.6 over one open list of one
  generation (\<^verbatim>\<open>app/controllers/status_list.py\<close> is not among the sources).
  \<open>status_create_entry\<close> reserves \<open>next_free_index\<close> and moves the counter (section 4.3,
  steps 3 and 4), failing when the list is sealed instead of rolling over;
  \<open>status_get\<close> reads the bit at the claim's index (section 4.6); \<open>status_change\<close> sets it
  and returns the list's unsigned credential, the bits left unencoded (sections 4.4, 4.5).
\<close>

definition status_create_entry :: "world \<Rightarrow> string \<Rightarrow> string \<Rightarrow> (exn + json) \<times> world" where
  "status_create_entry w label list_type =
     (if next_free_index w < length (status_bits w) then
        (Inr (JDict [(''type'', JStr (list_type @ ''Entry'')),
                     (''statusListCredential'', JStr (label @ '':status_lists:'' @ list_type)),
                     (''statusListIndex'', JInt (int (next_free_index w))),
                     (''statusPurpose'', JStr ''revocation'')]),
         w\<lparr>next_free_index := Suc (next_free_index w)\<rparr>)
      else (Inl (Raised ''sealed''), w))"

definition status_index :: "world \<Rightarrow> json \<Rightarrow> exn + nat" where
  "status_index w vc =
     (case subscript vc ''credentialStatus'' of
        Inl e \<Rightarrow> Inl e
      | Inr credentialStatus \<Rightarrow>
          (case subscript credentialStatus ''statusListIndex'' of
             Inl e \<Rightarrow> Inl e
           | Inr (JInt i) \<Rightarrow>
               if 0 \<le> i \<and> nat i < length (status_bits w) then Inr (nat i)
               else Inl (Raised ''IndexOutOfRange'')
           | Inr _ \<Rightarrow> Inl TypeError))"

definition status_get :: "world \<Rightarrow> json \<Rightarrow> json \<Rightarrow> exn + bool" where
  "status_get w vc status_type =
     (case status_index w vc of
        Inl e \<Rightarrow> Inl e
      | Inr i \<Rightarrow> Inr (status_bits w ! i))"

definition status_change :: "world \<Rightarrow> json \<Rightarrow> json \<Rightarrow> string \<Rightarrow> (exn + json) \<times> world" where
  "status_change w vc status_bit label =
     (case status_index w vc of
        Inl e \<Rightarrow> (Inl e, w)
      | Inr i \<Rightarrow>
          let bs = (status_bits w)[i := truthy status_bit] in
            (Inr (JDict [(''type'', JStr ''StatusList2021Credential''),
                         (''encodedList'', JList (map JBool bs))]),
             w\<lparr>status_bits := bs\<rparr>))"

text \<open>
  \<^verbatim>\<open>str.lower()\<close> as it acts on a string of ASCII characters: the letters A to Z go
  to a to z, every other character stays. The sample data below is ASCII.
\<close>

definition ascii_lower_char :: "char \<Rightarrow> char" where
  "ascii_lower_char c =
     (case map_of (zip ''ABCDEFGHIJKLMNOPQRSTUVWXYZ'' ''abcdefghijklmnopqrstuvwxyz'') c of
        None \<Rightarrow> c
      | Some l \<Rightarrow> l)"

definition ascii_lower :: "string \<Rightarrow> string" where
  "ascii_lower s = map ascii_lower_char s"

text \<open>
  The rest: a request is the caller's bearer token, \<open>''secret''\<close> being the valid one; the
  label is resolved to itself; the agent signs by wrapping the document and finds every
  proof good.
\<close>

definition reference_env :: "(world, string) env" where
  "reference_env =
     \<lparr>DID_WEB_BASE = ''did:web:example.com'',
      JWTBearer = (\<lambda>request. if request = ''secret'' then Inr ()
                              else Inl (ValidationException 403 [])),
      is_authorized = (\<lambda>label request. if request = ''secret'' then Inr label
                              else Inl (ValidationException 401 [])),
      format_label = (\<lambda>label. Inr label),
      fetch_data = askar_fetch_data,
      store_data = askar_put,
      update_data = askar_put,
      create_entry = status_create_entry,
      get_credential_status = status_get,
      change_credential_status = status_change,
      get_verkey = (\<lambda>did. Inr (JStr ''verkey'')),
      sign_json_ld = (\<lambda>document options verkey. Inr (JDict [(''signed'', document)])),
      agent_verify_credential = (\<lambda>vc. Inr (JDict [(''verified'', JBool True)])),
      uuid4 = ''00000000-0000-4000-8000-000000000000'',
      py_str = (\<lambda>v. ''value''),
      str_lower = ascii_lower,
      is_expired = (\<lambda>date. Inr False),
      CredentialVerificationResponse =
        \<lparr>verified = JBool False, checks = [], warnings = [], errors = [],
         verifications = []\<rparr>\<rparr>"

definition empty_world :: world where
  "empty_world =
     \<lparr>records = [],
      status_bits = [False, False, False, False, False, False, False, False],
      next_free_index = 0\<rparr>"

subsection \<open>Sample data\<close>

text \<open>An environment whose store cannot be reached: every fetch raises.\<close>

definition unreachable_env :: "(world, string) env" where
  "unreachable_env =
     reference_env\<lparr>fetch_data := (\<lambda>w data_key. Inl (Raised ''ConnectionError''))\<rparr>"

text \<open>
  Tenant \<open>acme\<close> with two issued credentials: \<open>c1\<close> bound to index 0 of generation 1 of
  its StatusList2021 list, \<open>c2\<close> to index 1 of generation 0 of its RevocationList2020 list.
\<close>

definition acme_world :: world where
  "acme_world =
     \<lparr>records =
        [(''acme:credentials:c1'',
          JDict [(''id'', JStr ''c1''),
                 (''issuer'', JStr ''did:web:example.com:organization:acme''),
                 (''credentialStatus'',
                  JDict [(''type'', JStr ''StatusList2021Entry''),
                         (''statusListCredential'', JStr ''acme:status_lists:StatusList2021:1''),
                         (''statusListIndex'', JInt 0),
                         (''statusPurpose'', JStr ''revocation'')])]),
         (''acme:credentials:c2'',
          JDict [(''id'', JStr ''c2''),
                 (''issuer'', JStr ''did:web:example.com:organization:acme''),
                 (''credentialStatus'',
                  JDict [(''type'', JStr ''RevocationList2020Status''),
                         (''statusListCredential'',
                          JStr ''acme:status_lists:RevocationList2020:0''),
                         (''statusListIndex'', JInt 1),
                         (''statusPurpose'', JStr ''revocation'')])])],
      status_bits = [False, False, False, False, False, False, False, False],
      next_free_index = 2\<rparr>"


text \<open>A store with one record under a key that ends in a generation and one without.\<close>

definition lists_world :: world where
  "lists_world =
     \<lparr>records =
        [(''acme:status_lists:StatusList2021:0'', JStr ''generation 0''),
         (''acme:status_lists:StatusList2021'', JStr ''no generation'')],
      status_bits = [False, False, False, False, False, False, False, False],
      next_free_index = 0\<rparr>"

text \<open>The records of both, in one store.\<close>

definition acme_lists_world :: world where
  "acme_lists_world = acme_world\<lparr>records := records acme_world @ records lists_world\<rparr>"

text \<open>The unsigned status-list credential that the reference engine returns for given bits.\<close>

definition list_credential :: "bool list \<Rightarrow> json" where
  "list_credential bs =
     JDict [(''type'', JStr ''StatusList2021Credential''),
            (''encodedList'', JList (map JBool bs))]"


text \<open>A list whose bit 0 is set, and a presented credential bound to that bit.\<close>

definition revoked_world :: world where
  "revoked_world =
     \<lparr>records = [],
      status_bits = [True, False, False, False, False, False, False, False],
      next_free_index = 1\<rparr>"

definition revoked_vc :: dict where
  "revoked_vc =
     [(''context'', JList [JStr ''https://www.w3.org/2018/credentials/v1'']),
      (''issuer'', JStr ''did:web:example.com:organization:acme''),
      (''credentialStatus'',
       JDict [(''type'', JStr ''StatusList2021Entry''),
              (''statusListIndex'', JInt 0),
              (''statusPurpose'', JStr ''revocation'')])]"

text \<open>Request bodies for \<^verbatim>\<open>issue_credential\<close>.\<close>

definition sample_credential :: "string \<Rightarrow> string \<Rightarrow> dict" where
  "sample_credential credential_id issuer =
     [(''context'', JList [JStr ''https://www.w3.org/2018/credentials/v1'']),
      (''id'', JStr credential_id),
      (''issuer'', JStr issuer)]"

definition status_options :: dict where
  "status_options =
     [(''type'', JStr ''Ed25519Signature2018''),
      (''credentialStatus'', JDict [(''type'', JStr ''StatusList2021Entry'')])]"

definition plain_options :: dict where
  "plain_options = [(''type'', JStr ''Ed25519Signature2018'')]"

text \<open>Options that ask for a status entry of a type the handler does not know.\<close>

definition other_status_options :: dict where
  "other_status_options =
     [(''type'', JStr ''Ed25519Signature2018''),
      (''credentialStatus'', JDict [(''type'', JStr ''BitstringStatusListEntry'')])]"

text \<open>
  An environment whose status engine accepts only \<^verbatim>\<open>True\<close> and \<^verbatim>\<open>False\<close> as a
  status and raises on anything else.
\<close>

definition strict_env :: "(world, string) env" where
  "strict_env =
     reference_env
       \<lparr>change_credential_status :=
          (\<lambda>w vc status_bit label.
             case status_bit of
               JBool b \<Rightarrow> status_change w vc status_bit label
             | _ \<Rightarrow> (Inl (Raised ''ValueError''), w))\<rparr>"

subsection \<open>Notions used by the statements\<close>

text \<open>
  The key scheme as the specification words it (section 6):
  \<^verbatim>\<open>{tenant}:status_lists:{type}:{generation}\<close>.
\<close>

definition spec_status_list_key :: "string \<Rightarrow> string \<Rightarrow> string \<Rightarrow> string" where
  "spec_status_list_key tenant list_type generation =
     tenant @ '':status_lists:'' @ list_type @ '':'' @ generation"

text \<open>
  A record of one round of the loop of \<^verbatim>\<open>update_credential_status\<close>: the element of
  the batch, the status bit read from it, the status-list credential that
  \<^verbatim>\<open>change_credential_status\<close> returned and the state it left, the signed credential,
  and the state after the write.
\<close>

record 'st round =
  round_status :: dict
  round_bit :: json
  round_credential :: json
  round_changed :: 'st
  round_signed :: json
  round_persisted :: 'st

text \<open>
  \<open>rounds_from\<close> checks a list of such records against the collaborators: starting in
  \<open>st\<close>, each round reads its status bit, hands the credential \<open>vc\<close>, the bit and the
  label to \<^verbatim>\<open>change_credential_status\<close>, has the result signed, and writes the signed
  credential with \<^verbatim>\<open>update_data\<close> under the label followed by \<^verbatim>\<open>:status_list\<close>; the
  next round starts in the state the write left. \<open>state_after\<close> is the state after the
  last round.
\<close>

fun rounds_from ::
  "('st, 'r) env \<Rightarrow> string \<Rightarrow> json \<Rightarrow> json \<Rightarrow> json \<Rightarrow> 'st \<Rightarrow> 'st round list \<Rightarrow> bool" where
  "rounds_from env label vc options verkey st [] = True"
| "rounds_from env label vc options verkey st (r # rs) =
     (getitem (round_status r) ''status'' = Inr (round_bit r) \<and>
      change_credential_status env st vc (round_bit r) label =
        (Inr (round_credential r), round_changed r) \<and>
      sign_json_ld env (round_credential r) options verkey = Inr (round_signed r) \<and>
      update_data env (round_changed r) (label @ '':status_list'') (round_signed r) =
        (Inr (), round_persisted r) \<and>
      rounds_from env label vc options verkey (round_persisted r) rs)"

definition state_after :: "'st \<Rightarrow> 'st round list \<Rightarrow> 'st" where
  "state_after st rs = (if rs = [] then st else round_persisted (last rs))"

text \<open>
  \<open>round_raises\<close>: the round for the element \<open>status\<close>, started in \<open>st\<close>, raises \<open>e\<close> and
  leaves the state \<open>st'\<close>, at whichever of its four steps.
\<close>

definition round_raises ::
  "('st, 'r) env \<Rightarrow> string \<Rightarrow> json \<Rightarrow> json \<Rightarrow> json \<Rightarrow> 'st \<Rightarrow> dict \<Rightarrow> exn \<Rightarrow> 'st \<Rightarrow> bool" where
  "round_raises env label vc options verkey st status e st' =
     (case getitem status ''status'' of
        Inl e1 \<Rightarrow> e = e1 \<and> st' = st
      | Inr status_bit \<Rightarrow>
          (case change_credential_status env st vc status_bit label of
             (Inl e1, st1) \<Rightarrow> e = e1 \<and> st' = st1
           | (Inr status_list_credential, st1) \<Rightarrow>
               (case sign_json_ld env status_list_credential options verkey of
                  Inl e1 \<Rightarrow> e = e1 \<and> st' = st1
                | Inr status_list_vc \<Rightarrow>
                    (case update_data env st1 (label @ '':status_list'') status_list_vc of
                       (Inl e1, st2) \<Rightarrow> e = e1 \<and> st' = st2
                     | (Inr _, st2) \<Rightarrow> False))))"

text \<open>The proof options that \<^verbatim>\<open>update_credential_status\<close> builds at lines 176 to 179.\<close>

definition status_proof_options :: "('st, 'r) env \<Rightarrow> json \<Rightarrow> json" where
  "status_proof_options env did =
     JDict [(''verificationMethod'', JStr (fmt env did @ ''#verkey'')),
            (''proofPurpose'', JStr ''AssertionMethod'')]"



text \<open>
  Two runs have the same outcome up to \<open>R\<close>: the same result, be it a value or an
  exception, and final states related by \<open>R\<close>.
\<close>

definition same_outcome :: "('st \<Rightarrow> 'st \<Rightarrow> bool) \<Rightarrow> 'a \<times> 'st \<Rightarrow> 'a \<times> 'st \<Rightarrow> bool" where
  "same_outcome R x y = (fst x = fst y \<and> R (snd x) (snd y))"


text \<open>The \<^verbatim>\<open>label\<close> path parameter of a request.\<close>

fun label_of :: "call \<Rightarrow> string" where
  "label_of (Call_get_credential label credential_id) = label"
| "label_of (Call_issue_credential label credential options) = label"
| "label_of (Call_verify_credential label vc) = label"
| "label_of (Call_update_credential_status label credential_id statuses) = label"
| "label_of (Call_get_status_list_credential label list_type) = label"


section \<open>Properties\<close>

subsection \<open>Auxiliary facts\<close>

lemmas handler_defs =
  get_credential_def get_status_list_credential_def issue_credential_def fill_status_def
  bind_status_def append_context_def sign_and_store_def issuer_of_def
  verify_credential_def verify_credential_locals_def check_status_def check_expiry_def
  conclude_def update_credential_status_def
  credential_key_def stored_credential_key_def status_list_key_def status_lists_key_def
  getitem_def pop_def contains_def fmt_def

lemma reference_env_fields:
  "DID_WEB_BASE reference_env = ''did:web:example.com''"
  "JWTBearer reference_env request =
     (if request = ''secret'' then Inr () else Inl (ValidationException 403 []))"
  "is_authorized reference_env label request =
     (if request = ''secret'' then Inr label else Inl (ValidationException 401 []))"
  "format_label reference_env label = Inr label"
  "fetch_data reference_env = askar_fetch_data"
  "store_data reference_env = askar_put"
  "update_data reference_env = askar_put"
  "create_entry reference_env = status_create_entry"
  "get_credential_status reference_env = status_get"
  "change_credential_status reference_env = status_change"
  "get_verkey reference_env did = Inr (JStr ''verkey'')"
  "sign_json_ld reference_env document options verkey = Inr (JDict [(''signed'', document)])"
  "agent_verify_credential reference_env vc = Inr (JDict [(''verified'', JBool True)])"
  "uuid4 reference_env = ''00000000-0000-4000-8000-000000000000''"
  "py_str reference_env v = ''value''"
  "str_lower reference_env = ascii_lower"
  "is_expired reference_env date = Inr False"
  "CredentialVerificationResponse reference_env =
     \<lparr>verified = JBool False, checks = [], warnings = [], errors = [], verifications = []\<rparr>"
  by (simp_all add: reference_env_def)

lemmas reference_defs =
  reference_env_fields askar_fetch_data_def askar_put_def status_create_entry_def
  status_index_def status_get_def status_change_def empty_world_def Let_def
  ascii_lower_def ascii_lower_char_def

lemma map_of_setitem: "map_of (setitem d k v) = (map_of d)(k \<mapsto> v)"
  by (induction d) auto

lemma map_of_delitem: "k' \<noteq> k \<Longrightarrow> map_of (delitem d k) k' = map_of d k'"
  by (induction d) auto

lemma status_loop_append:
  "status_loop env label vc options verkey (xs @ ys) st =
     (case status_loop env label vc options verkey xs st of
        (Inl e, st1) \<Rightarrow> (Inl e, st1)
      | (Inr _, st1) \<Rightarrow> status_loop env label vc options verkey ys st1)"
  by (induction xs arbitrary: st) (auto split: sum.splits prod.splits)

lemma strict_env_fields:
  "is_authorized strict_env label request =
     (if request = ''secret'' then Inr label else Inl (ValidationException 401 []))"
  "fetch_data strict_env = askar_fetch_data"
  "update_data strict_env = askar_put"
  "str_lower strict_env = ascii_lower"
  "get_verkey strict_env did = Inr (JStr ''verkey'')"
  "sign_json_ld strict_env document options verkey = Inr (JDict [(''signed'', document)])"
  "py_str strict_env v = ''value''"
  "change_credential_status strict_env w vc status_bit label =
     (case status_bit of
        JBool b \<Rightarrow> status_change w vc status_bit label
      | _ \<Rightarrow> (Inl (Raised ''ValueError''), w))"
  by (simp_all add: strict_env_def reference_env_def)

lemma state_after_Cons: "state_after st (r # rs) = state_after (round_persisted r) rs"
  by (simp add: state_after_def)

lemma status_loop_rounds:
  "rounds_from env l vc options verkey st rs \<Longrightarrow>
   status_loop env l vc options verkey (map round_status rs) st = (Inr (), state_after st rs)"
proof (induction rs arbitrary: st)
  case Nil
  then show ?case by (simp add: state_after_def)
next
  case (Cons r rs)
  then show ?case by (simp add: state_after_Cons status_list_key_def)
qed

lemma status_loop_raises:
  "round_raises env l vc options verkey st status e st' \<Longrightarrow>
   status_loop env l vc options verkey (status # rest) st = (Inl e, st')"
  by (auto simp: round_raises_def status_list_key_def split: sum.splits prod.splits)

lemma update_credential_status_loop:
  assumes "is_authorized env label request = Inr l"
      and "fetch_data env st (stored_credential_key env l credential_id) = Inr vc"
      and "issuer_of vc = Inr did"
      and "get_verkey env did = Inr verkey"
  shows "update_credential_status env st label request credential_id statuses =
           (case status_loop env l vc (status_proof_options env did) verkey statuses st of
              (Inl e, st') \<Rightarrow> (Inl e, st')
            | (Inr _, st') \<Rightarrow>
                (Inr (JSONResponse 200 (JDict [(''message'', JStr ''Status updated'')])), st'))"
  using assms by (simp add: update_credential_status_def status_proof_options_def)

subsection \<open>Lookup failures (claim C6)\<close>

text \<open>
  Claim C6, as the code has it. Once the label is resolved, \<^verbatim>\<open>get_credential\<close> ends in
  the 404 ``credential ... not found'' exactly when the fetch raises, whatever it raises,
  and \<^verbatim>\<open>get_status_list_credential\<close> produces the 404 ``Status list not found''
  exactly when the fetch raises, whatever it raises: the cause of the failure is not told
  apart, an unreachable store and an absent record give the same 404.
\<close>

theorem lookup_404_iff_fetch_raises:
  assumes "is_authorized env label request = Inr l"
      and "format_label env label' = Inr l'"
  shows "(fst (get_credential env st label credential_id request) =
            Inl (ValidationException 404
              [(''message'', JStr (''credential '' @ credential_id @ '' not found''))])) =
         (\<exists>e. fetch_data env st (credential_key l credential_id) = Inl e)
       \<and> (fst (get_status_list_credential env st label' list_type) =
            Inr (ReturnedException (ValidationException 404
              [(''message'', JStr ''Status list not found'')]))) =
         (\<exists>e. fetch_data env st (status_lists_key l' list_type) = Inl e)"
  using assms
  by (auto simp: get_credential_def get_status_list_credential_def split: sum.splits)

text \<open>The statement at the unreachable store, for tenant \<open>acme\<close>.\<close>

theorem lookup_404_iff_fetch_raises_witness:
  "fst (get_credential unreachable_env acme_world ''acme'' ''c1'' ''secret'') =
     Inl (ValidationException 404 [(''message'', JStr ''credential c1 not found'')]) \<and>
   fst (get_status_list_credential unreachable_env acme_world ''acme'' ''StatusList2021'') =
     Inr (ReturnedException
       (ValidationException 404 [(''message'', JStr ''Status list not found'')]))"
proof -
  have a: "is_authorized unreachable_env ''acme'' ''secret'' = Inr ''acme''"
    by (simp add: unreachable_env_def reference_env_fields)
  have f: "format_label unreachable_env ''acme'' = Inr ''acme''"
    by (simp add: unreachable_env_def reference_env_fields)
  have e: "\<And>k. \<exists>e. fetch_data unreachable_env acme_world k = Inl e"
    by (simp add: unreachable_env_def)
  from lookup_404_iff_fetch_raises [OF a f, of acme_world "''c1''" "''StatusList2021''"] e
  show ?thesis by simp
qed

text \<open>
  Against claim C6 as worded: the record of credential \<open>c1\<close> is in the store, the fetch
  raises a connection error, and the caller is told that the credential was not found.
\<close>

theorem store_failure_reported_as_not_found:
  "map_of (records acme_world) (credential_key ''acme'' ''c1'') \<noteq> None \<and>
   fetch_data unreachable_env acme_world (credential_key ''acme'' ''c1'') =
     Inl (Raised ''ConnectionError'') \<and>
   get_credential unreachable_env acme_world ''acme'' ''c1'' ''secret'' =
     (Inl (ValidationException 404 [(''message'', JStr ''credential c1 not found'')]), acme_world)"
  by (simp add: get_credential_def credential_key_def unreachable_env_def reference_env_fields
        acme_world_def)

subsection \<open>Where a status update is persisted (claim C1)\<close>

text \<open>
  Claim C1, as the code has it. \<^verbatim>\<open>update_credential_status\<close> fetches the stored
  credential and then works through the batch: for every status change, in input order,
  it hands the credential, the status bit and the tenant label to
  \<^verbatim>\<open>change_credential_status\<close>, signs the status-list credential that comes back, and
  writes the signed credential with \<^verbatim>\<open>update_data\<close> under the label followed by
  \<^verbatim>\<open>:status_list\<close>, a key in which neither the credential's status entry nor a list
  type nor a generation occurs. When every round goes through, the request ends with the
  200 in the state that the last write left.
\<close>

theorem status_update_runs_every_round:
  assumes "is_authorized env label request = Inr l"
      and "fetch_data env st (stored_credential_key env l credential_id) = Inr vc"
      and "issuer_of vc = Inr did"
      and "get_verkey env did = Inr verkey"
      and "rounds_from env l vc (status_proof_options env did) verkey st rs"
  shows "update_credential_status env st label request credential_id (map round_status rs) =
           (Inr (JSONResponse 200 (JDict [(''message'', JStr ''Status updated'')])),
            state_after st rs)"
  using assms(5)
  by (simp add: update_credential_status_loop [OF assms(1-4)] status_loop_rounds)

text \<open>
  The statement for credential \<open>c2\<close> of tenant \<open>acme\<close>, bound to index 1, and a batch
  of two changes: the bit is set and cleared again, and the store holds, under the
  tenant's key, the list signed in the second round.
\<close>

theorem status_update_runs_every_round_witness:
  "update_credential_status reference_env acme_world ''acme'' ''secret'' ''c2''
     [[(''status'', JBool True)], [(''status'', JBool False)]] =
   (Inr (JSONResponse 200 (JDict [(''message'', JStr ''Status updated'')])),
    acme_world
      \<lparr>records := records acme_world @
         [(''acme:status_list'',
           JDict [(''signed'',
             list_credential [False, False, False, False, False, False, False, False])])]\<rparr>)"
proof -
  let ?vc = "JDict [(''id'', JStr ''c2''),
                 (''issuer'', JStr ''did:web:example.com:organization:acme''),
                 (''credentialStatus'',
                  JDict [(''type'', JStr ''RevocationList2020Status''),
                         (''statusListCredential'',
                          JStr ''acme:status_lists:RevocationList2020:0''),
                         (''statusListIndex'', JInt 1),
                         (''statusPurpose'', JStr ''revocation'')])]"
  let ?did = "JStr ''did:web:example.com:organization:acme''"
  let ?on = "[False, True, False, False, False, False, False, False]"
  let ?off = "[False, False, False, False, False, False, False, False]"
  let ?w1 = "acme_world\<lparr>status_bits := ?on\<rparr>"
  let ?w2 = "?w1\<lparr>records := records acme_world @
               [(''acme:status_list'', JDict [(''signed'', list_credential ?on)])]\<rparr>"
  let ?w3 = "?w2\<lparr>status_bits := ?off\<rparr>"
  let ?w4 = "?w3\<lparr>records := records acme_world @
               [(''acme:status_list'', JDict [(''signed'', list_credential ?off)])]\<rparr>"
  let ?rs = "[\<lparr>round_status = [(''status'', JBool True)], round_bit = JBool True,
               round_credential = list_credential ?on, round_changed = ?w1,
               round_signed = JDict [(''signed'', list_credential ?on)],
               round_persisted = ?w2\<rparr>,
              \<lparr>round_status = [(''status'', JBool False)], round_bit = JBool False,
               round_credential = list_credential ?off, round_changed = ?w3,
               round_signed = JDict [(''signed'', list_credential ?off)],
               round_persisted = ?w4\<rparr>]"
  have 1: "is_authorized reference_env ''acme'' ''secret'' = Inr ''acme''"
    by (simp add: reference_env_fields)
  have 2: "fetch_data reference_env acme_world
             (stored_credential_key reference_env ''acme'' ''c2'') = Inr ?vc"
    by (simp add: handler_defs reference_defs acme_world_def)
  have 3: "issuer_of ?vc = Inr ?did"
    by (simp add: issuer_of_def getitem_def)
  have 4: "get_verkey reference_env ?did = Inr (JStr ''verkey'')"
    by (simp add: reference_env_fields)
  have 5: "rounds_from reference_env ''acme'' ?vc (status_proof_options reference_env ?did)
             (JStr ''verkey'') acme_world ?rs"
    by (simp add: reference_defs getitem_def acme_world_def list_credential_def)
  from status_update_runs_every_round [OF 1 2 3 4 5]
  show ?thesis by (simp add: state_after_def acme_world_def)
qed

text \<open>
  Against claim C1 as worded: \<open>c1\<close> names generation 1 of one list and \<open>c2\<close> generation
  0 of another, and the status update of either writes the one record
  \<open>acme:status_list\<close>, which names no generation.
\<close>

theorem status_update_writes_shared_record:
  "map fst (records acme_world) = [''acme:credentials:c1'', ''acme:credentials:c2''] \<and>
   map fst (records (snd (update_credential_status reference_env acme_world ''acme'' ''secret''
      ''c1'' [[(''status'', JBool True)]]))) =
     [''acme:credentials:c1'', ''acme:credentials:c2'', ''acme:status_list''] \<and>
   map fst (records (snd (update_credential_status reference_env acme_world ''acme'' ''secret''
      ''c2'' [[(''status'', JBool True)]]))) =
     [''acme:credentials:c1'', ''acme:credentials:c2'', ''acme:status_list'']"
  by (simp add: handler_defs reference_defs acme_world_def)

subsection \<open>The keys of the status-list records (claim C2)\<close>

text \<open>
  Claim C2, as the code has it. Over the store, a status update leaves under the key
  \<^verbatim>\<open>{label}:status_list\<close> the status-list credential signed in its last round, and
  the retrieval endpoint reads the key \<^verbatim>\<open>{label}:status_lists:{list_type}\<close>: it
  returns the record stored there, and what it answers depends on no other record.
  Neither key is built with a generation. The written key is never of the form
  \<^verbatim>\<open>{label}:status_lists:{type}:{generation}\<close>, and the key read is of that form
  only when the list type of the request is itself \<^verbatim>\<open>{type}:{generation}\<close>.
\<close>

theorem status_list_keys:
  assumes "fetch_data env = askar_fetch_data"
      and "update_data env = askar_put"
      and "format_label env label' = Inr l'"
      and "is_authorized env label request = Inr l"
      and "fetch_data env w (stored_credential_key env l credential_id) = Inr vc"
      and "issuer_of vc = Inr did"
      and "get_verkey env did = Inr verkey"
      and "rounds_from env l vc (status_proof_options env did) verkey w rs"
      and "rs \<noteq> []"
  shows "map_of (records (snd (update_credential_status env w label request credential_id
                                 (map round_status rs)))) (l @ '':status_list'') =
           Some (round_signed (last rs)) \<and>
         (map_of (records w) (l' @ '':status_lists:'' @ list_type) = Some stored \<longrightarrow>
            get_status_list_credential env w label' list_type = (Inr (Returned stored), w)) \<and>
         (map_of (records w) (l' @ '':status_lists:'' @ list_type) =
          map_of (records w') (l' @ '':status_lists:'' @ list_type) \<longrightarrow>
            fst (get_status_list_credential env w label' list_type) =
            fst (get_status_list_credential env w' label' list_type)) \<and>
         l @ '':status_list'' \<noteq> spec_status_list_key l any_type generation \<and>
         (l' @ '':status_lists:'' @ list_type = spec_status_list_key l' any_type generation) =
           (list_type = any_type @ '':'' @ generation)"
proof -
  have last_round: "rounds_from env l vc options verkey st rs' \<Longrightarrow> rs' \<noteq> [] \<Longrightarrow>
          map_of (records (state_after st rs')) (l @ '':status_list'') =
            Some (round_signed (last rs'))" for options st rs'
  proof (induction rs' arbitrary: st)
    case Nil
    then show ?case by simp
  next
    case (Cons r rs')
    show ?case
    proof (cases "rs' = []")
      case True
      from Cons.prems(1) have
        "update_data env (round_changed r) (l @ '':status_list'') (round_signed r) =
           (Inr (), round_persisted r)"
        by simp
      then have "round_persisted r =
                   snd (askar_put (round_changed r) (l @ '':status_list'') (round_signed r))"
        using assms(2) by simp
      then show ?thesis
        using True by (simp add: state_after_def askar_put_def map_of_setitem)
    next
      case False
      with Cons show ?thesis by (simp add: state_after_Cons)
    qed
  qed
  have written: "map_of (records (snd (update_credential_status env w label request
                    credential_id (map round_status rs)))) (l @ '':status_list'') =
           Some (round_signed (last rs))"
    using last_round [OF assms(8,9)]
    by (simp add: update_credential_status_loop [OF assms(4-7)]
          status_loop_rounds [OF assms(8)])
  have read: "get_status_list_credential env w0 label' list_type =
                (case map_of (records w0) (l' @ '':status_lists:'' @ list_type) of
                   None \<Rightarrow> (Inr (ReturnedException (ValidationException 404
                               [(''message'', JStr ''Status list not found'')])), w0)
                 | Some v \<Rightarrow> (Inr (Returned v), w0))" for w0
    using assms(1,3)
    by (simp add: get_status_list_credential_def askar_fetch_data_def status_lists_key_def
          split: option.splits)
  have form1: "l @ '':status_list'' \<noteq> spec_status_list_key l any_type generation"
    by (simp add: spec_status_list_key_def)
  have form2: "(l' @ '':status_lists:'' @ list_type =
                  spec_status_list_key l' any_type generation) =
               (list_type = any_type @ '':'' @ generation)"
    by (simp add: spec_status_list_key_def)
  from written form1 form2 show ?thesis
    by (auto simp: read split: option.splits)
qed

text \<open>
  The statement for tenant \<open>acme\<close>: the update of \<open>c1\<close> leaves the signed list under
  \<open>acme:status_list\<close>; the retrieval for \<open>StatusList2021\<close> returns the record without a
  generation, and the record of generation 0 is returned only to a request that names
  the generation in its list type.
\<close>

theorem status_list_keys_witness:
  "map_of (records (snd (update_credential_status reference_env acme_lists_world ''acme''
                           ''secret'' ''c1'' [[(''status'', JBool True)]])))
     ''acme:status_list'' =
     Some (JDict [(''signed'',
             list_credential [True, False, False, False, False, False, False, False])]) \<and>
   get_status_list_credential reference_env acme_lists_world ''acme'' ''StatusList2021'' =
     (Inr (Returned (JStr ''no generation'')), acme_lists_world) \<and>
   get_status_list_credential reference_env acme_lists_world ''acme'' ''StatusList2021:0'' =
     (Inr (Returned (JStr ''generation 0'')), acme_lists_world)"
proof -
  let ?vc = "JDict [(''id'', JStr ''c1''),
                 (''issuer'', JStr ''did:web:example.com:organization:acme''),
                 (''credentialStatus'',
                  JDict [(''type'', JStr ''StatusList2021Entry''),
                         (''statusListCredential'', JStr ''acme:status_lists:StatusList2021:1''),
                         (''statusListIndex'', JInt 0),
                         (''statusPurpose'', JStr ''revocation'')])]"
  let ?did = "JStr ''did:web:example.com:organization:acme''"
  let ?on = "[True, False, False, False, False, False, False, False]"
  let ?w1 = "acme_lists_world\<lparr>status_bits := ?on\<rparr>"
  let ?w2 = "?w1\<lparr>records := records acme_lists_world @
               [(''acme:status_list'', JDict [(''signed'', list_credential ?on)])]\<rparr>"
  let ?rs = "[\<lparr>round_status = [(''status'', JBool True)], round_bit = JBool True,
               round_credential = list_credential ?on, round_changed = ?w1,
               round_signed = JDict [(''signed'', list_credential ?on)],
               round_persisted = ?w2\<rparr>]"
  have 1: "fetch_data reference_env = askar_fetch_data" by (simp add: reference_env_fields)
  have 2: "update_data reference_env = askar_put" by (simp add: reference_env_fields)
  have 3: "format_label reference_env ''acme'' = Inr ''acme''"
    by (simp add: reference_env_fields)
  have 4: "is_authorized reference_env ''acme'' ''secret'' = Inr ''acme''"
    by (simp add: reference_env_fields)
  have 5: "fetch_data reference_env acme_lists_world
             (stored_credential_key reference_env ''acme'' ''c1'') = Inr ?vc"
    by (simp add: handler_defs reference_defs acme_lists_world_def acme_world_def)
  have 6: "issuer_of ?vc = Inr ?did"
    by (simp add: issuer_of_def getitem_def)
  have 7: "get_verkey reference_env ?did = Inr (JStr ''verkey'')"
    by (simp add: reference_env_fields)
  have 8: "rounds_from reference_env ''acme'' ?vc (status_proof_options reference_env ?did)
             (JStr ''verkey'') acme_lists_world ?rs"
    by (simp add: reference_defs getitem_def acme_lists_world_def acme_world_def
          lists_world_def list_credential_def)
  have 9: "?rs \<noteq> []" by simp
  have a: "map_of (records acme_lists_world) (''acme'' @ '':status_lists:'' @ ''StatusList2021'') =
             Some (JStr ''no generation'')"
    by (simp add: acme_lists_world_def acme_world_def lists_world_def)
  have b: "map_of (records acme_lists_world)
             (''acme'' @ '':status_lists:'' @ ''StatusList2021:0'') =
             Some (JStr ''generation 0'')"
    by (simp add: acme_lists_world_def acme_world_def lists_world_def)
  from status_list_keys [OF 1 2 3 4 5 6 7 8 9, of "''StatusList2021''" "JStr ''no generation''"] a
       status_list_keys [OF 1 2 3 4 5 6 7 8 9, of "''StatusList2021:0''" "JStr ''generation 0''"] b
  show ?thesis by simp
qed

text \<open>
  Against claim C2 as worded: for tenant \<open>acme\<close>, neither the key that the lookup reads
  for \<open>StatusList2021\<close> nor the key that a status update writes is of the form
  \<^verbatim>\<open>{tenant}:status_lists:{type}:{generation}\<close>, and of the two records in the store
  the lookup returns the one whose key has no generation.
\<close>

theorem status_keys_have_no_generation:
  "\<not> (\<exists>list_type generation.
        status_lists_key ''acme'' ''StatusList2021'' =
        spec_status_list_key ''acme'' list_type generation) \<and>
   \<not> (\<exists>list_type generation.
        status_list_key ''acme'' = spec_status_list_key ''acme'' list_type generation) \<and>
   get_status_list_credential reference_env lists_world ''acme'' ''StatusList2021'' =
     (Inr (Returned (JStr ''no generation'')), lists_world)"
  apply (simp add: handler_defs reference_defs lists_world_def spec_status_list_key_def)
  apply (auto simp: append_eq_Cons_conv Cons_eq_append_conv)
  done

subsection \<open>A batch of status changes (claim C4)\<close>

text \<open>
  Claim C4, as the code has it. \<^verbatim>\<open>update_credential_status\<close> works through the batch
  in input order, and every round writes its own result to the store. When the rounds
  \<open>rs\<close> for the first changes have gone through and the round for the next change
  raises \<open>e\<close>, at whichever step, the request ends with \<open>e\<close> in the state that round
  left: what the earlier rounds changed and wrote stays, and the changes after the failing
  one are not looked at.
\<close>

theorem failed_round_keeps_earlier_rounds:
  assumes "is_authorized env label request = Inr l"
      and "fetch_data env st (stored_credential_key env l credential_id) = Inr vc"
      and "issuer_of vc = Inr did"
      and "get_verkey env did = Inr verkey"
      and "rounds_from env l vc (status_proof_options env did) verkey st rs"
      and "round_raises env l vc (status_proof_options env did) verkey (state_after st rs)
             status e st'"
  shows "update_credential_status env st label request credential_id
           (map round_status rs @ status # rest) = (Inl e, st')"
proof -
  have "status_loop env l vc (status_proof_options env did) verkey
          (map round_status rs @ status # rest) st = (Inl e, st')"
    unfolding status_loop_append status_loop_rounds [OF assms(5)]
    using status_loop_raises [OF assms(6)] by simp
  then show ?thesis
    by (simp add: update_credential_status_loop [OF assms(1-4)])
qed

text \<open>
  A batch of three for credential \<open>c1\<close> whose second status the engine rejects: the
  first change is in the bits and in the store, the third was never applied.
\<close>

theorem failed_round_keeps_earlier_rounds_witness:
  "update_credential_status strict_env acme_world ''acme'' ''secret'' ''c1''
     [[(''status'', JBool True)], [(''status'', JStr ''unknown'')], [(''status'', JBool False)]] =
   (Inl (Raised ''ValueError''),
    acme_world
      \<lparr>records := records acme_world @
         [(''acme:status_list'',
           JDict [(''signed'',
             list_credential [True, False, False, False, False, False, False, False])])],
       status_bits := [True, False, False, False, False, False, False, False]\<rparr>)"
proof -
  let ?vc = "JDict [(''id'', JStr ''c1''),
                 (''issuer'', JStr ''did:web:example.com:organization:acme''),
                 (''credentialStatus'',
                  JDict [(''type'', JStr ''StatusList2021Entry''),
                         (''statusListCredential'', JStr ''acme:status_lists:StatusList2021:1''),
                         (''statusListIndex'', JInt 0),
                         (''statusPurpose'', JStr ''revocation'')])]"
  let ?did = "JStr ''did:web:example.com:organization:acme''"
  let ?on = "[True, False, False, False, False, False, False, False]"
  let ?w1 = "acme_world\<lparr>status_bits := ?on\<rparr>"
  let ?w2 = "?w1\<lparr>records := records acme_world @
               [(''acme:status_list'', JDict [(''signed'', list_credential ?on)])]\<rparr>"
  let ?rs = "[\<lparr>round_status = [(''status'', JBool True)], round_bit = JBool True,
               round_credential = list_credential ?on, round_changed = ?w1,
               round_signed = JDict [(''signed'', list_credential ?on)],
               round_persisted = ?w2\<rparr>]"
  have 1: "is_authorized strict_env ''acme'' ''secret'' = Inr ''acme''"
    by (simp add: strict_env_fields)
  have 2: "fetch_data strict_env acme_world
             (stored_credential_key strict_env ''acme'' ''c1'') = Inr ?vc"
    by (simp add: stored_credential_key_def strict_env_fields reference_defs acme_world_def)
  have 3: "issuer_of ?vc = Inr ?did"
    by (simp add: issuer_of_def getitem_def)
  have 4: "get_verkey strict_env ?did = Inr (JStr ''verkey'')"
    by (simp add: strict_env_fields)
  have 5: "rounds_from strict_env ''acme'' ?vc (status_proof_options strict_env ?did)
             (JStr ''verkey'') acme_world ?rs"
    by (simp add: strict_env_fields reference_defs getitem_def acme_world_def
          list_credential_def)
  have 6: "round_raises strict_env ''acme'' ?vc (status_proof_options strict_env ?did)
             (JStr ''verkey'') (state_after acme_world ?rs) [(''status'', JStr ''unknown'')]
             (Raised ''ValueError'') ?w2"
    by (simp add: round_raises_def state_after_def strict_env_fields getitem_def)
  from failed_round_keeps_earlier_rounds [OF 1 2 3 4 5 6, of "[[(''status'', JBool False)]]"]
  show ?thesis by (simp add: acme_world_def)
qed

text \<open>
  Against claim C4 as worded: a batch of two whose second change the engine rejects. The
  request fails, and the first change alone has been applied and persisted.
\<close>

theorem failing_batch_leaves_first_change:
  "status_bits acme_world ! 0 = False \<and>
   fst (update_credential_status strict_env acme_world ''acme'' ''secret'' ''c1''
      [[(''status'', JBool True)], [(''status'', JStr ''unknown'')]]) =
     Inl (Raised ''ValueError'') \<and>
   status_bits (snd (update_credential_status strict_env acme_world ''acme'' ''secret'' ''c1''
      [[(''status'', JBool True)], [(''status'', JStr ''unknown'')]])) ! 0 = True \<and>
   map_of (records (snd (update_credential_status strict_env acme_world ''acme'' ''secret''
      ''c1'' [[(''status'', JBool True)], [(''status'', JStr ''unknown'')]])))
     ''acme:status_list'' =
     Some (JDict [(''signed'',
             list_credential [True, False, False, False, False, False, False, False])])"
  by (simp add: handler_defs strict_env_fields reference_defs acme_world_def
        list_credential_def)

subsection \<open>Which routes are protected (claim C10)\<close>

text \<open>
  Claim C10. Among the five routes, the one of \<^verbatim>\<open>get_status_list_credential\<close> is the
  only one declared without the bearer dependency. A request to it is answered by the
  handler whatever the bearer check and the authorisation would say, so a caller without
  a token gets the tenant's status-list credential. A request to any other route ends
  with the bearer check's error when that check fails, and with the authorisation's
  error when the label is not authorised, the state untouched.
\<close>

theorem only_status_list_route_is_open:
  "map route_endpoint (filter (\<lambda>r. Depends_JWTBearer \<notin> set (route_dependencies r)) router) =
     [Get_status_list_credential]
   \<and> serve (env\<lparr>JWTBearer := bearer, is_authorized := authorize\<rparr>) st request
        (Call_get_status_list_credential label list_type) =
      get_status_list_credential env st label list_type
   \<and> (endpoint_of c \<noteq> Get_status_list_credential \<longrightarrow> JWTBearer env request = Inl e \<longrightarrow>
        serve env st request c = (Inl e, st))
   \<and> (endpoint_of c \<noteq> Get_status_list_credential \<longrightarrow> JWTBearer env request = Inr () \<longrightarrow>
        is_authorized env (label_of c) request = Inl e \<longrightarrow>
        serve env st request c = (Inl e, st))"
proof (intro conjI impI)
  show "map route_endpoint (filter (\<lambda>r. Depends_JWTBearer \<notin> set (route_dependencies r)) router) =
     [Get_status_list_credential]"
    by (simp add: router_def)
  show "serve (env\<lparr>JWTBearer := bearer, is_authorized := authorize\<rparr>) st request
        (Call_get_status_list_credential label list_type) =
      get_status_list_credential env st label list_type"
    by (simp add: serve_def router_def get_status_list_credential_def split: sum.splits)
next
  assume "endpoint_of c \<noteq> Get_status_list_credential" and "JWTBearer env request = Inl e"
  then show "serve env st request c = (Inl e, st)"
    by (cases c) (simp_all add: serve_def router_def)
next
  assume "endpoint_of c \<noteq> Get_status_list_credential" and "JWTBearer env request = Inr ()"
    and "is_authorized env (label_of c) request = Inl e"
  then show "serve env st request c = (Inl e, st)"
    by (cases c)
       (simp_all add: serve_def router_def get_credential_def issue_credential_def
          verify_credential_def verify_credential_locals_def update_credential_status_def)
qed

text \<open>
  The statement for a caller without a valid token: the status list of \<open>acme\<close> is
  served, \<^verbatim>\<open>get_credential\<close> is refused by the bearer check, and past the bearer check
  \<^verbatim>\<open>update_credential_status\<close> is refused by the authorisation.
\<close>

theorem only_status_list_route_is_open_witness:
  "serve reference_env lists_world ''no token''
      (Call_get_status_list_credential ''acme'' ''StatusList2021'') =
     (Inr (Returned (JStr ''no generation'')), lists_world) \<and>
   serve reference_env acme_world ''no token'' (Call_get_credential ''acme'' ''c1'') =
     (Inl (ValidationException 403 []), acme_world) \<and>
   serve (reference_env\<lparr>JWTBearer := (\<lambda>request. Inr ())\<rparr>) acme_world ''no token''
        (Call_update_credential_status ''acme'' ''c1'' [[(''status'', JBool True)]]) =
     (Inl (ValidationException 401 []), acme_world)"
proof -
  have open_route:
    "serve reference_env lists_world ''no token''
       (Call_get_status_list_credential ''acme'' ''StatusList2021'') =
     get_status_list_credential reference_env lists_world ''acme'' ''StatusList2021''"
    using only_status_list_route_is_open
      [where env = reference_env and bearer = "JWTBearer reference_env"
         and authorize = "is_authorized reference_env" and st = lists_world
         and request = "''no token''" and label = "''acme''"
         and list_type = "''StatusList2021''"]
    by simp
  have bearer:
    "serve reference_env acme_world ''no token'' (Call_get_credential ''acme'' ''c1'') =
       (Inl (ValidationException 403 []), acme_world)"
    using only_status_list_route_is_open
      [where c = "Call_get_credential ''acme'' ''c1''" and env = reference_env
         and request = "''no token''" and e = "ValidationException 403 []"
         and st = acme_world]
    by (simp add: reference_env_fields)
  have authorised:
    "serve (reference_env\<lparr>JWTBearer := (\<lambda>request. Inr ())\<rparr>) acme_world ''no token''
        (Call_update_credential_status ''acme'' ''c1'' [[(''status'', JBool True)]]) =
     (Inl (ValidationException 401 []), acme_world)"
    using only_status_list_route_is_open
      [where c = "Call_update_credential_status ''acme'' ''c1'' [[(''status'', JBool True)]]"
         and env = "reference_env\<lparr>JWTBearer := (\<lambda>request. Inr ())\<rparr>"
         and request = "''no token''" and e = "ValidationException 401 []"
         and st = acme_world]
    by (simp add: reference_env_def)
  show ?thesis
    unfolding open_route bearer authorised
    by (simp add: handler_defs reference_defs lists_world_def)
qed

subsection \<open>Issuing without a status option (claim C3)\<close>

text \<open>
  Claim C3 says that a request whose options hold no \<^verbatim>\<open>credentialStatus\<close> succeeds
  with no status claim attached. In the code, line 60 guards the status block with
  \<^verbatim>\<open>"credentialStatus" in options\<close>, and line 71 then pops the key without a default:
  for an authorised label and a credential with a context, a request without the option
  ends in \<^verbatim>\<open>KeyError\<close>, with nothing signed or stored.
\<close>

theorem issue_without_status_option_raises:
  assumes "is_authorized env label request = Inr l"
      and "map_of credential ''context'' = Some ctxt"
      and "map_of options ''credentialStatus'' = None"
  shows "issue_credential env st label request credential options =
           (Inl (KeyError ''credentialStatus''), st)"
  using assms
  by (simp add: issue_credential_def pop_def fill_status_def contains_def Let_def)

text \<open>The statement for a well-formed credential of tenant \<open>acme\<close> and plain options.\<close>

theorem issue_without_status_option_raises_witness:
  "issue_credential reference_env empty_world ''acme'' ''secret''
     (sample_credential ''urn:uuid:c1'' ''did:web:example.com:organization:acme'')
     plain_options =
   (Inl (KeyError ''credentialStatus''), empty_world)"
  by (rule issue_without_status_option_raises
        [where l = "''acme''"
           and ctxt = "JList [JStr ''https://www.w3.org/2018/credentials/v1'']"])
     (simp_all add: reference_env_fields sample_credential_def plain_options_def)

text \<open>
  The rest of the status block works as described: for either known type the context URL
  of that type is appended and the status claim is what one call of \<^verbatim>\<open>create_entry\<close>
  with the matching list type returns; for any other type the credential is left as it is.
\<close>

lemma bind_status_list:
  assumes "map_of credential ''@context'' = Some (JList ctxt)"
  shows "bind_status env st l credential url list_type =
           (case create_entry env st l list_type of
              (Inl e, st1) \<Rightarrow> (Inl e, st1)
            | (Inr entry, st1) \<Rightarrow>
                (Inr (setitem (setitem credential ''@context'' (JList (ctxt @ [JStr url])))
                        ''credentialStatus'' entry), st1))"
  using assms by (simp add: bind_status_def append_context_def getitem_def)

lemma fill_status_typed:
  assumes c: "map_of credential ''@context'' = Some (JList ctxt)"
      and o: "map_of options ''credentialStatus'' = Some credentialStatus"
      and t: "subscript credentialStatus ''type'' = Inr (JStr ty)"
      and k: "ty = ''StatusList2021Entry'' \<and> list_type = ''StatusList2021'' \<and>
                url = ''https://w3id.org/vc/status-list/2021/v1'' \<or>
              ty = ''RevocationList2020Status'' \<and> list_type = ''RevocationList2020'' \<and>
                url = ''https://w3id.org/vc-revocation-list-2020/v1''"
  shows "fill_status env st l credential options =
           (case create_entry env st l list_type of
              (Inl e, st1) \<Rightarrow> (Inl e, st1)
            | (Inr entry, st1) \<Rightarrow>
                (Inr (setitem (setitem credential ''@context'' (JList (ctxt @ [JStr url])))
                        ''credentialStatus'' entry), st1))"
proof -
  have "fill_status env st l credential options = bind_status env st l credential url list_type"
    using k
  proof
    assume "ty = ''StatusList2021Entry'' \<and> list_type = ''StatusList2021'' \<and>
                url = ''https://w3id.org/vc/status-list/2021/v1''"
    then show ?thesis using o t by (simp add: fill_status_def contains_def getitem_def)
  next
    assume "ty = ''RevocationList2020Status'' \<and> list_type = ''RevocationList2020'' \<and>
                url = ''https://w3id.org/vc-revocation-list-2020/v1''"
    then show ?thesis using o t by (simp add: fill_status_def contains_def getitem_def)
  qed
  then show ?thesis by (simp add: bind_status_list [OF c])
qed

lemma fill_status_other_type:
  assumes "map_of options ''credentialStatus'' = Some credentialStatus"
      and "subscript credentialStatus ''type'' = Inr ty"
      and "ty \<noteq> JStr ''StatusList2021Entry''" and "ty \<noteq> JStr ''RevocationList2020Status''"
  shows "fill_status env st l credential options = (Inr credential, st)"
  using assms by (simp add: fill_status_def contains_def getitem_def)

subsection \<open>The response of a verification (claim C5)\<close>

text \<open>
  Claim C5 says that the response records the error \<^verbatim>\<open>revoked\<close> when the credential's
  status bit is set. For a presented credential bound to bit 0, which is set, the handler
  does put \<^verbatim>\<open>revoked\<close> into the errors of its local \<^verbatim>\<open>verification\<close>, and then
  returns the agent's answer as the content of the response: the caller reads
  \<^verbatim>\<open>{"verified": true}\<close> and no error.
\<close>

theorem revoked_credential_response:
  "status_bits revoked_world ! 0 = True \<and>
   map_sum id (errors \<circ> fst)
     (verify_credential_locals reference_env revoked_world ''acme'' ''secret'' revoked_vc) =
     Inr [''revoked''] \<and>
   verify_credential reference_env revoked_world ''acme'' ''secret'' revoked_vc =
     (Inr (JSONResponse 200 (JDict [(''verified'', JBool True)])), revoked_world)"
  by (simp add: handler_defs reference_defs revoked_world_def revoked_vc_def)

text \<open>
  In general: whenever \<^verbatim>\<open>verify_credential\<close> returns, its response is the agent's
  answer with status code 200, whatever the status check found.
\<close>

lemma conclude_response: "snd (conclude verification verified_doc) = JSONResponse 200 verified_doc"
  by (simp add: conclude_def Let_def split: sum.splits)

lemma verify_response_is_agent_answer:
  assumes "verify_credential env st label request vc = (Inr response, st')"
  shows "\<exists>presented verified_doc.
           agent_verify_credential env presented = Inr verified_doc \<and>
           response = JSONResponse 200 verified_doc"
proof -
  from assms obtain verification where
    l: "verify_credential_locals env st label request vc = Inr (verification, response)"
    by (auto simp: verify_credential_def split: sum.splits prod.splits)
  then obtain presented verified_doc v where
    "agent_verify_credential env presented = Inr verified_doc"
    "conclude v verified_doc = (verification, response)"
    by (auto simp: verify_credential_locals_def Let_def split: sum.splits prod.splits)
  then show ?thesis using conclude_response [of v verified_doc] by auto
qed

subsection \<open>A rejected issuer after the allocation (claim C8)\<close>

lemma issuer_of_setitem:
  "k \<noteq> ''issuer'' \<Longrightarrow> issuer_of (JDict (setitem d k v)) = issuer_of (JDict d)"
  by (simp add: issuer_of_def getitem_def map_of_setitem)

lemma issuer_of_delitem:
  "k \<noteq> ''issuer'' \<Longrightarrow> issuer_of (JDict (delitem d k)) = issuer_of (JDict d)"
  by (simp add: issuer_of_def getitem_def map_of_delitem)

text \<open>
  Claim C8, for the two status types the handler knows. When the options ask for a status
  entry of type \<^verbatim>\<open>StatusList2021Entry\<close> or \<^verbatim>\<open>RevocationList2020Status\<close>,
  \<^verbatim>\<open>create_entry\<close> succeeds, and the credential's issuer is not the tenant's DID, the
  request is rejected with the 400 ``Invalid issuer'', and the state it leaves is the one
  \<^verbatim>\<open>create_entry\<close> returned: the allocation has happened, nothing has been stored and
  no credential is returned.
\<close>

theorem invalid_issuer_after_create_entry:
  assumes auth: "is_authorized env label request = Inr l"
      and ctx: "map_of credential ''context'' = Some (JList ctxt)"
      and opt: "map_of options ''credentialStatus'' = Some credentialStatus"
      and ty: "subscript credentialStatus ''type'' = Inr (JStr ty)"
      and kind: "ty = ''StatusList2021Entry'' \<and> list_type = ''StatusList2021'' \<or>
                 ty = ''RevocationList2020Status'' \<and> list_type = ''RevocationList2020''"
      and entry: "create_entry env st l list_type = (Inr entry, st1)"
      and issuer: "issuer_of (JDict credential) = Inr issuer_did"
      and other: "issuer_did \<noteq> JStr (DID_WEB_BASE env @ '':organization:'' @ l)"
  shows "issue_credential env st label request credential options =
           (Inl (ValidationException 400 [(''message'', JStr ''Invalid issuer'')]), st1)"
proof -
  define c1 where "c1 = setitem (delitem credential ''context'') ''@context'' (JList ctxt)"
  define c2 where "c2 = (if \<not> contains ''id'' c1
                         then setitem c1 ''id'' (JStr (''urn:uuid:'' @ uuid4 env)) else c1)"
  define url where "url = (if ty = ''StatusList2021Entry''
                           then ''https://w3id.org/vc/status-list/2021/v1''
                           else ''https://w3id.org/vc-revocation-list-2020/v1'')"
  define c3 where "c3 = setitem c2 ''@context'' (JList (ctxt @ [JStr url]))"
  define c4 where "c4 = setitem c3 ''credentialStatus'' entry"
  have ctx2: "map_of c2 ''@context'' = Some (JList ctxt)"
    by (simp add: c2_def c1_def map_of_setitem)
  have bind: "bind_status env st l c2 url list_type = (Inr c4, st1)"
    using ctx2 entry
    by (simp add: bind_status_def append_context_def getitem_def c3_def c4_def)
  have fill: "fill_status env st l c2 options = (Inr c4, st1)"
    using opt ty kind bind
    by (auto simp: fill_status_def contains_def getitem_def url_def)
  have iss: "issuer_of (JDict c4) = Inr issuer_did"
    using issuer
    by (simp add: c4_def c3_def c2_def c1_def issuer_of_setitem issuer_of_delitem)
  have sas: "\<And>options'. sign_and_store env st1 l c4 options' =
           (Inl (ValidationException 400 [(''message'', JStr ''Invalid issuer'')]), st1)"
    using iss other by (auto simp: sign_and_store_def Let_def)
  have "issue_credential env st label request credential options =
          (case fill_status env st l c2 options of
             (Inl e, st') \<Rightarrow> (Inl e, st')
           | (Inr credential', st') \<Rightarrow>
               (case pop options ''credentialStatus'' of
                  Inl e \<Rightarrow> (Inl e, st')
                | Inr (_, options') \<Rightarrow> sign_and_store env st' l credential' options'))"
    unfolding c2_def c1_def using auth ctx
    by (simp add: issue_credential_def pop_def Let_def split del: if_split)
  then show ?thesis
    using opt fill sas by (simp add: pop_def)
qed

text \<open>
  The statement for a credential issued in the name of another organisation: the request
  is rejected, index 0 is used up, the store is still empty.
\<close>

theorem invalid_issuer_after_create_entry_witness:
  "issue_credential reference_env empty_world ''acme'' ''secret''
     (sample_credential ''urn:uuid:c1'' ''did:web:example.com:organization:other'')
     status_options =
   (Inl (ValidationException 400 [(''message'', JStr ''Invalid issuer'')]),
    empty_world\<lparr>next_free_index := 1\<rparr>) \<and>
   records (empty_world\<lparr>next_free_index := 1\<rparr>) = []"
proof -
  have "issue_credential reference_env empty_world ''acme'' ''secret''
     (sample_credential ''urn:uuid:c1'' ''did:web:example.com:organization:other'')
     status_options =
   (Inl (ValidationException 400 [(''message'', JStr ''Invalid issuer'')]),
    empty_world\<lparr>next_free_index := 1\<rparr>)"
    by (rule invalid_issuer_after_create_entry
          [where l = "''acme''"
             and ctxt = "[JStr ''https://www.w3.org/2018/credentials/v1'']"
             and credentialStatus = "JDict [(''type'', JStr ''StatusList2021Entry'')]"
             and ty = "''StatusList2021Entry''" and list_type = "''StatusList2021''"
             and entry = "JDict [(''type'', JStr ''StatusList2021Entry''),
                     (''statusListCredential'', JStr ''acme:status_lists:StatusList2021''),
                     (''statusListIndex'', JInt 0),
                     (''statusPurpose'', JStr ''revocation'')]"
             and issuer_did = "JStr ''did:web:example.com:organization:other''"])
       (simp_all add: reference_defs sample_credential_def status_options_def
          issuer_of_def getitem_def)
  then show ?thesis by (simp add: empty_world_def)
qed

text \<open>
  Against claim C8 as worded: the options ask for a status entry of a type the handler
  does not know. The issuer is rejected with the same 400, and the state is untouched:
  \<^verbatim>\<open>create_entry\<close>, which moves the index, has not been called.
\<close>

theorem unknown_status_type_allocates_nothing:
  "issue_credential reference_env empty_world ''acme'' ''secret''
     (sample_credential ''urn:uuid:c1'' ''did:web:example.com:organization:other'')
     other_status_options =
   (Inl (ValidationException 400 [(''message'', JStr ''Invalid issuer'')]), empty_world) \<and>
   next_free_index (snd (create_entry reference_env empty_world ''acme'' ''StatusList2021'')) =
     Suc (next_free_index empty_world)"
  by (simp add: handler_defs reference_defs sample_credential_def other_status_options_def)

subsection \<open>Filing and fetching a credential (claim C9)\<close>







subsection \<open>Keys and tenants (claim C7)\<close>

lemma same_outcome_raise: "R w w' \<Longrightarrow> same_outcome R (Inl e, w) (Inl e, w')"
  by (simp add: same_outcome_def)




















end
